theory Spec2Isabelle
  imports Complex_Main "HOL-Library.Sublist"
begin

section \<open>The marketplace: forms and views\<close>

text \<open>
  A shallow embedding of \<^verbatim>\<open>app/forms.py\<close> (the WTForms form classes) and
  \<^verbatim>\<open>app/views.py\<close> (the Flask route handlers). A view becomes a function of the
  current user, the request and the store that returns the response, the flashed
  messages and the store after the request. The database tables are lists of rows in
  insertion order; \<^verbatim>\<open>first()\<close> is the first matching row and
  \<^verbatim>\<open>get_or_404\<close> the lookup by primary key.

  Text is \<open>string\<close>, one \<open>char\<close> for one character of a Python \<^verbatim>\<open>str\<close>
  (characters beyond 8 bits are outside the model). The user-visible messages of the
  source are Russian text; each is a constructor of \<open>msg\<close> named after its meaning.

  The collaborators that the two files call but do not define (the email syntax check
  of WTForms, bcrypt, \<^verbatim>\<open>secure_filename\<close>, \<^verbatim>\<open>uuid4\<close>, and the failures of the
  database session and of the file system that the source catches) are the fields of
  the record \<open>env\<close>. The CSRF token check of \<^verbatim>\<open>FlaskForm\<close> is configuration
  outside the two files; a request is taken as having passed it.
\<close>

subsection \<open>Text\<close>

text \<open>\<^verbatim>\<open>str.strip()\<close> removes the characters for which \<^verbatim>\<open>str.isspace\<close> holds.\<close>

definition whitespace :: "char list" where
  "whitespace =
     [CHR 0x09, CHR 0x0A, CHR 0x0B, CHR 0x0C, CHR 0x0D, CHR 0x1C, CHR 0x1D, CHR 0x1E,
      CHR 0x1F, CHR 0x20, CHR 0x85, CHR 0xA0]"

definition isspace :: "char \<Rightarrow> bool" where
  "isspace c = (c \<in> set whitespace)"

text \<open>The truth value of \<^verbatim>\<open>s.strip()\<close>: some character of \<open>s\<close> is not white space.\<close>

definition strip_truthy :: "string \<Rightarrow> bool" where
  "strip_truthy s = (filter (\<lambda>c. \<not> isspace c) s \<noteq> [])"

text \<open>SQL \<^verbatim>\<open>lower()\<close>: the letters A to Z are folded, every other character is kept.\<close>

definition lower_char :: "char \<Rightarrow> char" where
  "lower_char c =
     (case map_of (zip ''ABCDEFGHIJKLMNOPQRSTUVWXYZ'' ''abcdefghijklmnopqrstuvwxyz'') c of
        None \<Rightarrow> c
      | Some d \<Rightarrow> d)"

definition lower :: "string \<Rightarrow> string" where
  "lower s = map lower_char s"

text \<open>
  SQL \<^verbatim>\<open>LIKE\<close>, pattern first: \<^verbatim>\<open>%\<close> matches any run of characters (also the
  empty one), \<^verbatim>\<open>_\<close> matches any one character, every other character matches
  itself. No escape character is set by the source.
\<close>

fun like :: "string \<Rightarrow> string \<Rightarrow> bool" where
  "like [] s = (s = [])"
| "like (p # ps) [] = (p = CHR ''%'' \<and> like ps [])"
| "like (p # ps) (c # cs) =
     (if p = CHR ''%'' then like ps (c # cs) \<or> like (p # ps) cs
      else (p = CHR ''_'' \<or> p = c) \<and> like ps cs)"

text \<open>
  \<^verbatim>\<open>column.ilike(pattern)\<close> of SQLAlchemy: \<^verbatim>\<open>lower(column) LIKE lower(pattern)\<close>.
\<close>

definition ilike :: "string \<Rightarrow> string \<Rightarrow> bool" where
  "ilike column pattern = like (lower pattern) (lower column)"

subsection \<open>Floats\<close>

text \<open>
  A Python \<^verbatim>\<open>float\<close>: a finite double is the real number it denotes, beside the
  two infinities and NaN. The comparisons are those of IEEE 754: every comparison with
  NaN is false.
\<close>

datatype pyfloat = Finite real | PosInf | NegInf | NaN

fun float_lt :: "pyfloat \<Rightarrow> pyfloat \<Rightarrow> bool" where
  "float_lt NaN _ = False"
| "float_lt _ NaN = False"
| "float_lt (Finite a) (Finite b) = (a < b)"
| "float_lt (Finite a) PosInf = True"
| "float_lt (Finite a) NegInf = False"
| "float_lt PosInf _ = False"
| "float_lt NegInf NegInf = False"
| "float_lt NegInf _ = True"

definition float_ge :: "pyfloat \<Rightarrow> pyfloat \<Rightarrow> bool" where
  "float_ge a b = (a \<noteq> NaN \<and> b \<noteq> NaN \<and> \<not> float_lt a b)"

text \<open>\<^verbatim>\<open>bool(x)\<close> of a float: false for zero only (NaN is truthy).\<close>

definition float_truthy :: "pyfloat \<Rightarrow> bool" where
  "float_truthy x = (x \<noteq> Finite 0)"

text \<open>\<^verbatim>\<open>math.isnan\<close>.\<close>

definition isnan :: "pyfloat \<Rightarrow> bool" where
  "isnan x = (x = NaN)"

subsection \<open>The data model\<close>

text \<open>
  Modelled from the spec: \<^verbatim>\<open>app/models.py\<close> (the classes User, Shop, Product and
  Comment) is not among the source files. The rows carry the fields of the data model:
  User \<open>{id, email, password_hash}\<close>, Shop \<open>{id, name, image, owner_id}\<close>, Product
  \<open>{id, title, description, price, image, shop_id}\<close>, Comment
  \<open>{id, text, author_id, product_id}\<close>. \<^verbatim>\<open>shop.owner\<close>, \<^verbatim>\<open>product.shop\<close>,
  \<^verbatim>\<open>comment.author\<close> and \<^verbatim>\<open>comment.product\<close> are the rows the foreign keys
  name.
\<close>

record user =
  user_id :: nat
  email :: string
  password_hash :: string

record shop =
  shop_id :: nat
  shop_name :: string
  shop_image :: "string option"
  owner_id :: nat

record product =
  product_id :: nat
  title :: string
  description :: string
  price :: pyfloat
  product_image :: "string option"
  product_shop_id :: nat

record comment =
  comment_id :: nat
  comment_text :: string
  author_id :: nat
  comment_product_id :: nat

text \<open>The store: the four tables and the names of the files in the uploads folder.\<close>

record store =
  users :: "user list"
  shops :: "shop list"
  products :: "product list"
  comments :: "comment list"
  uploads :: "string list"

text \<open>The primary key the database gives to a new row: above every key of the table.\<close>

definition next_id :: "nat list \<Rightarrow> nat" where
  "next_id ids = Suc (fold max ids 0)"

text \<open>\<^verbatim>\<open>Model.query.get(id)\<close>: the row with this primary key.\<close>

definition get_user :: "store \<Rightarrow> nat \<Rightarrow> user option" where
  "get_user st i = find (\<lambda>u. user_id u = i) (users st)"

definition get_shop :: "store \<Rightarrow> nat \<Rightarrow> shop option" where
  "get_shop st i = find (\<lambda>s. shop_id s = i) (shops st)"

definition get_product :: "store \<Rightarrow> nat \<Rightarrow> product option" where
  "get_product st i = find (\<lambda>p. product_id p = i) (products st)"

text \<open>\<^verbatim>\<open>User.query.filter_by(email=...).first()\<close>.\<close>

definition user_by_email :: "store \<Rightarrow> string \<Rightarrow> user option" where
  "user_by_email st e = find (\<lambda>u. email u = e) (users st)"

text \<open>\<^verbatim>\<open>Shop.query.filter_by(name=...).first()\<close>.\<close>

definition shop_by_name :: "store \<Rightarrow> string \<Rightarrow> shop option" where
  "shop_by_name st n = find (\<lambda>s. shop_name s = n) (shops st)"

subsection \<open>Requests and responses\<close>

datatype http_method = GET | POST

datatype category = Success | Danger | Warning | Info

text \<open>
  The messages of the two files, by meaning. The first group are the messages of the
  form validators, the second the flashed messages of the views.
\<close>

datatype msg =
    Email_required | Email_invalid | Email_too_long | Email_already_registered
  | Password_required | Password_too_short | Confirm_required | Passwords_differ
  | Shop_name_required | Shop_name_length | Shop_name_exists | Images_only
  | Title_required | Title_length | Description_required | Description_length
  | Price_required | Price_range
  | Comment_required | Comment_length
  | Old_password_required | New_password_required | Query_required
  | Flash_bad_credentials
  | Flash_email_already_registered
  | Flash_registered
  | Flash_register_error string
  | Flash_product_added
  | Flash_product_error string
  | Flash_login_to_comment
  | Flash_comment_added
  | Flash_image_delete_error string
  | Flash_product_deleted
  | Flash_profile_updated

type_synonym flash = "msg \<times> category"

text \<open>\<^verbatim>\<open>form.errors\<close>: the fields that have errors, each with its messages.\<close>

type_synonym form_errors = "(string \<times> msg list) list"

definition field_errors :: "(string \<times> msg list) list \<Rightarrow> form_errors" where
  "field_errors fs = filter (\<lambda>(name, errs). errs \<noteq> []) fs"

text \<open>The targets of \<^verbatim>\<open>redirect\<close>: an endpoint of \<^verbatim>\<open>url_for\<close> or a given URL.\<close>

datatype target =
    Views_index | Views_login | Views_register | Views_account
  | Views_manage_shop nat | Views_product nat | Url string

text \<open>The templates of \<^verbatim>\<open>render_template\<close> with their arguments.\<close>

datatype page =
    Login_html form_errors
  | Register_html form_errors
  | Manage_shop_html shop
  | Add_product_html form_errors shop
  | Product_html product form_errors
  | Search_html "product list" string
  | Edit_account_html form_errors string

text \<open>
  \<open>Abort n\<close> is \<^verbatim>\<open>abort(n)\<close> (and the 404 of \<^verbatim>\<open>get_or_404\<close>);
  \<open>Unauthorized\<close> is the answer of \<^verbatim>\<open>login_required\<close> to an anonymous user;
  \<open>Internal_server_error\<close> is an exception that no handler of the view catches.
\<close>

datatype response =
    Redirect target
  | Render page
  | Abort nat
  | Unauthorized
  | Internal_server_error

text \<open>What the two files call but do not define.\<close>

record env =
  email_syntax :: "string \<Rightarrow> bool"
  generate_password_hash :: "string \<Rightarrow> string"
  check_password_hash :: "string \<Rightarrow> string \<Rightarrow> bool"
  secure_filename :: "string \<Rightarrow> string"
  uuid4_hex :: string
  save_error :: "string option"
  db_error :: "string option"
  os_error :: "string option"

subsection \<open>Search and the product page\<close>

text \<open>
  \<^verbatim>\<open>search\<close>: \<open>q\<close> is the query parameter \<^verbatim>\<open>q\<close> of the URL, \<open>None\<close> when
  the URL has none (\<^verbatim>\<open>request.args.get('q', '')\<close>).
\<close>

definition search :: "string option \<Rightarrow> store \<Rightarrow> response" where
  "search q st =
     (let query = (case q of None \<Rightarrow> '''' | Some s \<Rightarrow> s);
          results =
            (if query \<noteq> ''''
             then filter (\<lambda>p. ilike (title p) (''%'' @ query @ ''%'')
                              \<or> ilike (description p) (''%'' @ query @ ''%''))
                    (products st)
             else [])
      in Render (Search_html results query))"

subsection \<open>Validators\<close>

text \<open>
  A validator of WTForms returns, raises \<^verbatim>\<open>ValidationError\<close> (the message is
  recorded and the chain goes on) or raises \<^verbatim>\<open>StopValidation\<close> (the message is
  recorded and the chain ends): \<^verbatim>\<open>Field._run_validation_chain\<close>. The chain of a
  field is its \<^verbatim>\<open>validators\<close> list followed by the method
  \<^verbatim>\<open>validate_<field name>\<close> of the form class, when the class has one.
\<close>

datatype verdict = Passed | ValidationError msg | StopValidation msg

fun run_validation_chain :: "verdict list \<Rightarrow> msg list" where
  "run_validation_chain [] = []"
| "run_validation_chain (Passed # vs) = run_validation_chain vs"
| "run_validation_chain (ValidationError m # vs) = m # run_validation_chain vs"
| "run_validation_chain (StopValidation m # vs) = [m]"

text \<open>
  \<^verbatim>\<open>DataRequired\<close> on text: the data is truthy and not blank. A field that the
  request does not carry reads as the empty text here; both are refused alike.
\<close>

definition DataRequired :: "msg \<Rightarrow> string \<Rightarrow> verdict" where
  "DataRequired message data =
     (if data \<noteq> '''' \<and> strip_truthy data then Passed else StopValidation message)"

text \<open>
  \<^verbatim>\<open>DataRequired\<close> on a \<^verbatim>\<open>FloatField\<close>: the data is \<open>None\<close> when the field
  is absent or is not the text of a float (the conversion error is discarded by
  \<^verbatim>\<open>DataRequired\<close>, which empties the error list before it raises).
\<close>

definition DataRequired_float :: "msg \<Rightarrow> pyfloat option \<Rightarrow> verdict" where
  "DataRequired_float message data =
     (case data of
        None \<Rightarrow> StopValidation message
      | Some x \<Rightarrow> if float_truthy x then Passed else StopValidation message)"

definition Email :: "env \<Rightarrow> msg \<Rightarrow> string \<Rightarrow> verdict" where
  "Email env message data =
     (if email_syntax env data then Passed else ValidationError message)"

text \<open>\<^verbatim>\<open>Length(min, max)\<close>; \<open>None\<close> is a bound that is not given.\<close>

definition Length :: "nat option \<Rightarrow> nat option \<Rightarrow> msg \<Rightarrow> string \<Rightarrow> verdict" where
  "Length min_len max_len message data =
     (if (case min_len of None \<Rightarrow> True | Some lo \<Rightarrow> lo \<le> length data)
         \<and> (case max_len of None \<Rightarrow> True | Some hi \<Rightarrow> length data \<le> hi)
      then Passed else ValidationError message)"

definition EqualTo :: "string \<Rightarrow> msg \<Rightarrow> string \<Rightarrow> verdict" where
  "EqualTo other message data =
     (if data = other then Passed else ValidationError message)"

text \<open>
  \<^verbatim>\<open>NumberRange(min=...)\<close>: passes when the data is a number, is not NaN and is
  not below \<open>min\<close> (\<^verbatim>\<open>data >= self.min\<close>).
\<close>

definition NumberRange :: "pyfloat \<Rightarrow> msg \<Rightarrow> pyfloat option \<Rightarrow> verdict" where
  "NumberRange min_value message data =
     (case data of
        None \<Rightarrow> ValidationError message
      | Some x \<Rightarrow>
          if \<not> isnan x \<and> float_ge x min_value then Passed else ValidationError message)"

text \<open>
  \<^verbatim>\<open>FileAllowed(extensions)\<close>: the data is the name of the uploaded file, \<open>None\<close>
  without an upload. No file, or a file without a name, passes; else the lowered name
  must end with a dot and one of the extensions.
\<close>

definition FileAllowed :: "string list \<Rightarrow> msg \<Rightarrow> string option \<Rightarrow> verdict" where
  "FileAllowed upload_set message data =
     (case data of
        None \<Rightarrow> Passed
      | Some filename \<Rightarrow>
          if filename = '''' then Passed
          else if list_ex (\<lambda>x. suffix (''.'' @ x) (lower filename)) upload_set then Passed
          else StopValidation message)"

subsection \<open>Forms\<close>

text \<open>\<^verbatim>\<open>BaseForm.validate_email\<close>.\<close>

definition validate_email :: "store \<Rightarrow> string \<Rightarrow> verdict" where
  "validate_email st data =
     (if user_by_email st data \<noteq> None then ValidationError Email_already_registered
      else Passed)"

record login_form =
  login_email :: string
  login_password :: string
  login_remember :: bool

definition LoginForm_errors :: "env \<Rightarrow> login_form \<Rightarrow> form_errors" where
  "LoginForm_errors env form =
     field_errors
       [(''email'', run_validation_chain
           [DataRequired Email_required (login_email form),
            Email env Email_invalid (login_email form)]),
        (''password'', run_validation_chain
           [DataRequired Password_required (login_password form)])]"

record register_form =
  register_email :: string
  register_password :: string
  register_confirm_password :: string

text \<open>\<^verbatim>\<open>RegisterForm(BaseForm)\<close>: the email chain ends with \<^verbatim>\<open>validate_email\<close>.\<close>

definition RegisterForm_errors :: "env \<Rightarrow> store \<Rightarrow> register_form \<Rightarrow> form_errors" where
  "RegisterForm_errors env st form =
     field_errors
       [(''email'', run_validation_chain
           [DataRequired Email_required (register_email form),
            Email env Email_invalid (register_email form),
            Length None (Some 100) Email_too_long (register_email form),
            validate_email st (register_email form)]),
        (''password'', run_validation_chain
           [DataRequired Password_required (register_password form),
            Length (Some 8) None Password_too_short (register_password form)]),
        (''confirm_password'', run_validation_chain
           [DataRequired Confirm_required (register_confirm_password form),
            EqualTo (register_password form) Passwords_differ
              (register_confirm_password form)])]"

text \<open>
  \<^verbatim>\<open>ShopForm(BaseForm)\<close>. \<open>shop_attr\<close> is the attribute \<^verbatim>\<open>shop\<close> of the form
  object: the shop being edited, \<open>None\<close> when the form has no such attribute
  (\<^verbatim>\<open>hasattr(self, 'shop')\<close> is false). The form has no email field, so
  \<^verbatim>\<open>validate_email\<close> is not in any of its chains.
\<close>

record shop_form =
  shop_form_name :: string
  shop_form_image :: "string option"
  shop_attr :: "shop option"

text \<open>\<^verbatim>\<open>ShopForm.validate_name\<close>.\<close>

definition validate_name :: "store \<Rightarrow> shop option \<Rightarrow> string \<Rightarrow> verdict" where
  "validate_name st self_shop data =
     (case shop_by_name st data of
        None \<Rightarrow> Passed
      | Some found \<Rightarrow>
          (case self_shop of
             None \<Rightarrow> ValidationError Shop_name_exists
           | Some edited \<Rightarrow>
               if shop_id found \<noteq> shop_id edited then ValidationError Shop_name_exists
               else Passed))"

definition ShopForm_errors :: "store \<Rightarrow> shop_form \<Rightarrow> form_errors" where
  "ShopForm_errors st form =
     field_errors
       [(''name'', run_validation_chain
           [DataRequired Shop_name_required (shop_form_name form),
            Length (Some 3) (Some 100) Shop_name_length (shop_form_name form),
            validate_name st (shop_attr form) (shop_form_name form)]),
        (''image'', run_validation_chain
           [FileAllowed [''jpg'', ''jpeg'', ''png''] Images_only (shop_form_image form)])]"

text \<open>
  \<^verbatim>\<open>ProductForm\<close>. The price is the data of the \<^verbatim>\<open>FloatField\<close>:
  \<^verbatim>\<open>float(text)\<close> of the submitted text, \<open>None\<close> when there is no text or it is
  not the text of a float. \<open>price_min\<close> is the double that the literal
  \<^verbatim>\<open>0.01\<close> denotes, which is also \<^verbatim>\<open>float("0.01")\<close>.
\<close>

definition price_min :: real where
  "price_min = 5764607523034235 / 2 ^ 59"

record product_form =
  product_form_title :: string
  product_form_description :: string
  product_form_price :: "pyfloat option"
  product_form_image :: "string option"

definition price_errors :: "pyfloat option \<Rightarrow> msg list" where
  "price_errors data =
     run_validation_chain
       [DataRequired_float Price_required data,
        NumberRange (Finite price_min) Price_range data]"

definition ProductForm_errors :: "product_form \<Rightarrow> form_errors" where
  "ProductForm_errors form =
     field_errors
       [(''title'', run_validation_chain
           [DataRequired Title_required (product_form_title form),
            Length (Some 3) (Some 100) Title_length (product_form_title form)]),
        (''description'', run_validation_chain
           [DataRequired Description_required (product_form_description form),
            Length (Some 10) (Some 2000) Description_length
              (product_form_description form)]),
        (''price'', price_errors (product_form_price form)),
        (''image'', run_validation_chain
           [FileAllowed [''jpg'', ''jpeg'', ''png''] Images_only
              (product_form_image form)])]"

record comment_form =
  comment_form_text :: string

definition CommentForm_errors :: "comment_form \<Rightarrow> form_errors" where
  "CommentForm_errors form =
     field_errors
       [(''text'', run_validation_chain
           [DataRequired Comment_required (comment_form_text form),
            Length (Some 10) (Some 500) Comment_length (comment_form_text form)])]"

record edit_profile_form =
  edit_email :: string

text \<open>
  \<^verbatim>\<open>EditProfileForm(BaseForm)\<close>: as in \<^verbatim>\<open>RegisterForm\<close>, the email chain ends
  with the inherited \<^verbatim>\<open>validate_email\<close>.
\<close>

definition EditProfileForm_errors :: "env \<Rightarrow> store \<Rightarrow> edit_profile_form \<Rightarrow> form_errors" where
  "EditProfileForm_errors env st form =
     field_errors
       [(''email'', run_validation_chain
           [DataRequired Email_required (edit_email form),
            Email env Email_invalid (edit_email form),
            Length None (Some 100) Email_too_long (edit_email form),
            validate_email st (edit_email form)])]"

text \<open>
  \<^verbatim>\<open>form.validate_on_submit()\<close>: the request is a POST and no field has an error.
  \<open>shown_errors\<close> are the errors of the form object afterwards: a form that was not
  submitted was not validated and has none.
\<close>

definition validate_on_submit :: "http_method \<Rightarrow> form_errors \<Rightarrow> bool" where
  "validate_on_submit m errors = (m = POST \<and> errors = [])"

definition shown_errors :: "http_method \<Rightarrow> form_errors \<Rightarrow> form_errors" where
  "shown_errors m errors = (if m = POST then errors else [])"

subsection \<open>Views\<close>

text \<open>
  \<open>current_user\<close> is the proxy of Flask-Login: \<open>None\<close> is the anonymous user
  (\<^verbatim>\<open>is_authenticated\<close> is false), \<open>Some u\<close> the row of the user who is logged
  in. \<^verbatim>\<open>shop.owner != current_user\<close> compares two rows of the table of users: they
  differ exactly when their primary keys differ.
\<close>

definition is_authenticated :: "user option \<Rightarrow> bool" where
  "is_authenticated current_user = (current_user \<noteq> None)"

definition owner_is_not :: "shop \<Rightarrow> user option \<Rightarrow> bool" where
  "owner_is_not s current_user =
     (case current_user of None \<Rightarrow> True | Some u \<Rightarrow> owner_id s \<noteq> user_id u)"

text \<open>
  \<^verbatim>\<open>login\<close>. \<open>next_page\<close> is the parameter \<^verbatim>\<open>next\<close> of the URL. The third
  component of the result is the call of \<^verbatim>\<open>login_user\<close>: the user whose session
  is opened, with the \<^verbatim>\<open>remember\<close> flag, and \<open>None\<close> when there is no call.
\<close>

definition login ::
  "env \<Rightarrow> user option \<Rightarrow> http_method \<Rightarrow> string option \<Rightarrow> login_form \<Rightarrow> store
   \<Rightarrow> response \<times> flash list \<times> (user \<times> bool) option" where
  "login env current_user m next_page form st =
     (if is_authenticated current_user then (Redirect Views_index, [], None)
      else
        let errors = LoginForm_errors env form in
        if validate_on_submit m errors then
          (case user_by_email st (login_email form) of
             None \<Rightarrow>
               (Render (Login_html (shown_errors m errors)),
                [(Flash_bad_credentials, Danger)], None)
           | Some u \<Rightarrow>
               if check_password_hash env (password_hash u) (login_password form)
               then
                 ((case next_page of
                     None \<Rightarrow> Redirect Views_index
                   | Some url \<Rightarrow>
                       if url \<noteq> '''' then Redirect (Url url) else Redirect Views_index),
                  [], Some (u, login_remember form))
               else
                 (Render (Login_html (shown_errors m errors)),
                  [(Flash_bad_credentials, Danger)], None))
        else (Render (Login_html (shown_errors m errors)), [], None))"

text \<open>
  \<^verbatim>\<open>register\<close>. The \<^verbatim>\<open>except\<close> branch is taken when the database session raises
  (\<open>db_error env\<close> is the text of the exception): the session is rolled back.
\<close>

definition register ::
  "env \<Rightarrow> user option \<Rightarrow> http_method \<Rightarrow> register_form \<Rightarrow> store
   \<Rightarrow> response \<times> flash list \<times> store" where
  "register env current_user m form st =
     (if is_authenticated current_user then (Redirect Views_index, [], st)
      else
        let errors = RegisterForm_errors env st form in
        if validate_on_submit m errors then
          (case user_by_email st (register_email form) of
             Some existing_user \<Rightarrow>
               (Redirect Views_register, [(Flash_email_already_registered, Danger)], st)
           | None \<Rightarrow>
               (case db_error env of
                  Some e \<Rightarrow> (Redirect Views_register, [(Flash_register_error e, Danger)], st)
                | None \<Rightarrow>
                    let new_user =
                      \<lparr>user_id = next_id (map user_id (users st)),
                       email = register_email form,
                       password_hash =
                         generate_password_hash env (register_password form)\<rparr>
                    in (Redirect Views_login, [(Flash_registered, Success)],
                        st\<lparr>users := users st @ [new_user]\<rparr>)))
        else (Render (Register_html (shown_errors m errors)), [], st))"

text \<open>\<^verbatim>\<open>manage_shop\<close>, under \<^verbatim>\<open>login_required\<close>.\<close>

definition manage_shop :: "user option \<Rightarrow> nat \<Rightarrow> store \<Rightarrow> response" where
  "manage_shop current_user sid st =
     (if \<not> is_authenticated current_user then Unauthorized
      else
        case get_shop st sid of
          None \<Rightarrow> Abort 404
        | Some s \<Rightarrow>
            if owner_is_not s current_user then Abort 403
            else Render (Manage_shop_html s))"

text \<open>
  \<^verbatim>\<open>add_product\<close>, under \<^verbatim>\<open>login_required\<close>. The file is written before the row;
  \<open>save_error env\<close> is an exception of \<^verbatim>\<open>image.save\<close>, \<open>db_error env\<close> one of
  the database session. Both reach the \<^verbatim>\<open>except\<close> branch, which rolls the session
  back, flashes the text and falls through to the template.
\<close>

definition add_product ::
  "env \<Rightarrow> user option \<Rightarrow> nat \<Rightarrow> http_method \<Rightarrow> product_form \<Rightarrow> store
   \<Rightarrow> response \<times> flash list \<times> store" where
  "add_product env current_user sid m form st =
     (if \<not> is_authenticated current_user then (Unauthorized, [], st)
      else
        case get_shop st sid of
          None \<Rightarrow> (Abort 404, [], st)
        | Some s \<Rightarrow>
            if owner_is_not s current_user then (Abort 403, [], st)
            else
              let errors = ProductForm_errors form;
                  page = Render (Add_product_html (shown_errors m errors) s)
              in
              if validate_on_submit m errors then
                let upload =
                      (case product_form_image form of
                         None \<Rightarrow> None
                       | Some filename \<Rightarrow>
                           if filename \<noteq> ''''
                           then Some (uuid4_hex env @ ''_'' @ secure_filename env filename)
                           else None)
                in
                if upload \<noteq> None \<and> save_error env \<noteq> None
                then (page, [(Flash_product_error (the (save_error env)), Danger)], st)
                else
                  let st1 =
                        (case upload of
                           None \<Rightarrow> st
                         | Some unique_filename \<Rightarrow>
                             st\<lparr>uploads := uploads st @ [unique_filename]\<rparr>)
                  in
                  (case db_error env of
                     Some e \<Rightarrow> (page, [(Flash_product_error e, Danger)], st1)
                   | None \<Rightarrow>
                       let new_product =
                         \<lparr>product_id = next_id (map product_id (products st)),
                          title = product_form_title form,
                          description = product_form_description form,
                          price = the (product_form_price form),
                          product_image = upload,
                          product_shop_id = shop_id s\<rparr>
                       in (Redirect (Views_manage_shop (shop_id s)),
                           [(Flash_product_added, Success)],
                           st1\<lparr>products := products st1 @ [new_product]\<rparr>))
              else (page, [], st))"

text \<open>
  \<^verbatim>\<open>product\<close>: the page of a product and, on POST, a new comment. The view has no
  \<^verbatim>\<open>login_required\<close>; the lookup of the product comes first. An exception of the
  database session is not caught here.
\<close>

definition product_view ::
  "env \<Rightarrow> user option \<Rightarrow> nat \<Rightarrow> http_method \<Rightarrow> comment_form \<Rightarrow> store
   \<Rightarrow> response \<times> flash list \<times> store" where
  "product_view env current_user pid m form st =
     (case get_product st pid of
        None \<Rightarrow> (Abort 404, [], st)
      | Some p \<Rightarrow>
          let errors = CommentForm_errors form in
          if validate_on_submit m errors then
            (case current_user of
               None \<Rightarrow> (Redirect Views_login, [(Flash_login_to_comment, Warning)], st)
             | Some u \<Rightarrow>
                 (case db_error env of
                    Some e \<Rightarrow> (Internal_server_error, [], st)
                  | None \<Rightarrow>
                      let new_comment =
                        \<lparr>comment_id = next_id (map comment_id (comments st)),
                         comment_text = comment_form_text form,
                         author_id = user_id u,
                         comment_product_id = product_id p\<rparr>
                      in (Redirect (Views_product (product_id p)),
                          [(Flash_comment_added, Success)],
                          st\<lparr>comments := comments st @ [new_comment]\<rparr>)))
          else (Render (Product_html p (shown_errors m errors)), [], st))"

text \<open>
  \<^verbatim>\<open>delete_product\<close>, under \<^verbatim>\<open>login_required\<close>; the route takes POST only.
  \<^verbatim>\<open>product.shop.id\<close> raises when the product has no shop. \<open>os_error env\<close> is an
  \<^verbatim>\<open>OSError\<close> of \<^verbatim>\<open>os.remove\<close>, which the view catches and flashes. The file is
  removed before the rows are; an exception of the database session is not caught.
\<close>

definition delete_product ::
  "env \<Rightarrow> user option \<Rightarrow> nat \<Rightarrow> store \<Rightarrow> response \<times> flash list \<times> store" where
  "delete_product env current_user pid st =
     (if \<not> is_authenticated current_user then (Unauthorized, [], st)
      else
        case get_product st pid of
          None \<Rightarrow> (Abort 404, [], st)
        | Some p \<Rightarrow>
            (case get_shop st (product_shop_id p) of
               None \<Rightarrow> (Internal_server_error, [], st)
             | Some s \<Rightarrow>
                 if owner_is_not s current_user then (Abort 403, [], st)
                 else
                   let (st1, warnings) =
                         (case product_image p of
                            None \<Rightarrow> (st, [])
                          | Some image_name \<Rightarrow>
                              if image_name \<noteq> '''' \<and> image_name \<in> set (uploads st)
                              then
                                (case os_error env of
                                   Some e \<Rightarrow> (st, [(Flash_image_delete_error e, Warning)])
                                 | None \<Rightarrow>
                                     (st\<lparr>uploads := removeAll image_name (uploads st)\<rparr>, []))
                              else (st, []))
                   in
                   (case db_error env of
                      Some e \<Rightarrow> (Internal_server_error, warnings, st1)
                    | None \<Rightarrow>
                        (Redirect (Views_manage_shop (shop_id s)),
                         warnings @ [(Flash_product_deleted, Success)],
                         st1\<lparr>comments :=
                               filter (\<lambda>c. comment_product_id c \<noteq> product_id p)
                                 (comments st1),
                             products :=
                               filter (\<lambda>q. product_id q \<noteq> product_id p)
                                 (products st1)\<rparr>))))"

text \<open>
  \<^verbatim>\<open>edit_account\<close>, under \<^verbatim>\<open>login_required\<close>. The assignment to
  \<^verbatim>\<open>current_user.email\<close> changes the row of the current user. On GET the form is
  filled with the current email.
\<close>

definition edit_account ::
  "env \<Rightarrow> user option \<Rightarrow> http_method \<Rightarrow> edit_profile_form \<Rightarrow> store
   \<Rightarrow> response \<times> flash list \<times> store" where
  "edit_account env current_user m form st =
     (case current_user of
        None \<Rightarrow> (Unauthorized, [], st)
      | Some u \<Rightarrow>
          let errors = EditProfileForm_errors env st form in
          if validate_on_submit m errors then
            (case db_error env of
               Some e \<Rightarrow> (Internal_server_error, [], st)
             | None \<Rightarrow>
                 (Redirect Views_account, [(Flash_profile_updated, Success)],
                  st\<lparr>users :=
                       map (\<lambda>v. if user_id v = user_id u
                                then v\<lparr>email := edit_email form\<rparr> else v)
                         (users st)\<rparr>))
          else if m = GET then (Render (Edit_account_html [] (email u)), [], st)
          else (Render (Edit_account_html errors (edit_email form)), [], st))"

subsection \<open>The claim read from the specification\<close>

text \<open>
  The search of the specification: a product matches when its title or its description
  contains the query as a substring, letter case aside. It is compared below with what
  \<open>search\<close> computes.
\<close>

definition contains_ci :: "string \<Rightarrow> string \<Rightarrow> bool" where
  "contains_ci query column = sublist (lower query) (lower column)"

definition spec_search :: "string \<Rightarrow> store \<Rightarrow> product list" where
  "spec_search query st =
     filter (\<lambda>p. contains_ci query (title p) \<or> contains_ci query (description p))
       (products st)"

subsection \<open>A small marketplace\<close>

text \<open>
  Concrete collaborators and a concrete store, on which the theorems below are
  instantiated: two users, a shop of each, two products of the first shop, a comment
  on each product.
\<close>

definition demo_env :: env where
  "demo_env =
     \<lparr>email_syntax = (\<lambda>s. CHR ''@'' \<in> set s),
      generate_password_hash = (\<lambda>p. ''hash:'' @ p),
      check_password_hash = (\<lambda>h p. h = ''hash:'' @ p),
      secure_filename = (\<lambda>f. f),
      uuid4_hex = ''0f3a'',
      save_error = None,
      db_error = None,
      os_error = None\<rparr>"

definition alice :: user where
  "alice = \<lparr>user_id = 1, email = ''a@x.com'', password_hash = ''hash:password1''\<rparr>"

definition bob :: user where
  "bob = \<lparr>user_id = 2, email = ''b@x.com'', password_hash = ''hash:password2''\<rparr>"

definition alice_shop :: shop where
  "alice_shop = \<lparr>shop_id = 1, shop_name = ''Alice Wear'', shop_image = None, owner_id = 1\<rparr>"

definition bob_shop :: shop where
  "bob_shop = \<lparr>shop_id = 2, shop_name = ''Bob Tools'', shop_image = None, owner_id = 2\<rparr>"

definition red_shirt :: product where
  "red_shirt =
     \<lparr>product_id = 1, title = ''Red Shirt'', description = ''A fine cotton garment'',
      price = Finite 10, product_image = Some ''0f3a_shirt.png'', product_shop_id = 1\<rparr>"

definition blue_pants :: product where
  "blue_pants =
     \<lparr>product_id = 2, title = ''Blue Pants'', description = ''Warm winter trousers'',
      price = Finite 20, product_image = None, product_shop_id = 1\<rparr>"

definition shirt_comment :: comment where
  "shirt_comment =
     \<lparr>comment_id = 1, comment_text = ''Very nice shirt indeed'', author_id = 2,
      comment_product_id = 1\<rparr>"

definition pants_comment :: comment where
  "pants_comment =
     \<lparr>comment_id = 2, comment_text = ''These pants are warm'', author_id = 2,
      comment_product_id = 2\<rparr>"

definition demo_store :: store where
  "demo_store =
     \<lparr>users = [alice, bob],
      shops = [alice_shop, bob_shop],
      products = [red_shirt, blue_pants],
      comments = [shirt_comment, pants_comment],
      uploads = [''0f3a_shirt.png'']\<rparr>"

lemmas demo_defs =
  demo_env_def alice_def bob_def alice_shop_def bob_shop_def red_shirt_def blue_pants_def
  shirt_comment_def pants_comment_def demo_store_def

section \<open>Search\<close>

text \<open>
  Claim C8. For every store, the search with the empty query (and the search without a
  query parameter, which reads as the empty query) renders the result page with the
  empty list of products: never the products of the store, and no error response.
\<close>

theorem search_empty_query:
  "search (Some '''') st = Render (Search_html [] '''')
   \<and> search None st = Render (Search_html [] '''')"
  by (simp add: search_def)

theorem search_empty_query_witness:
  "products demo_store \<noteq> []
   \<and> search (Some '''') demo_store = Render (Search_html [] '''')"
  using search_empty_query [of demo_store] by (simp add: demo_store_def)

section \<open>Comments\<close>

text \<open>
  Claim C10. When the product id is not in the store, the product view answers 404 and
  leaves the store as it is, whoever the current user is (anonymous or logged in),
  whatever the method and the submitted comment: the lookup comes before the check of
  \<^verbatim>\<open>is_authenticated\<close>, so the answer is the same for every current user.
\<close>

theorem comment_on_missing_product:
  assumes "get_product st pid = None"
  shows "product_view env current_user pid m form st = (Abort 404, [], st)
         \<and> product_view env current_user pid m form st
             = product_view env other_user pid m form st"
  using assms by (simp add: product_view_def)

theorem comment_on_missing_product_witness:
  "get_product demo_store 7 = None
   \<and> product_view demo_env None 7 POST
        \<lparr>comment_form_text = ''A comment long enough''\<rparr> demo_store
       = (Abort 404, [], demo_store)
   \<and> product_view demo_env (Some bob) 7 POST
        \<lparr>comment_form_text = ''A comment long enough''\<rparr> demo_store
       = (Abort 404, [], demo_store)"
proof -
  have missing: "get_product demo_store 7 = None"
    by (simp add: get_product_def demo_store_def red_shirt_def blue_pants_def)
  show ?thesis
    using missing
      comment_on_missing_product [OF missing, of demo_env None POST
        "\<lparr>comment_form_text = ''A comment long enough''\<rparr>" "Some bob"]
    by metis
qed

section \<open>Lookups\<close>

text \<open>What \<open>find\<close> returns satisfies the test and is a row of the table.\<close>

lemma find_Some_key:
  "find P xs = Some x \<Longrightarrow> P x \<and> x \<in> set xs"
  by (induction xs) (auto split: if_splits)

lemma find_filter_neq: "find (\<lambda>q. f q = k) (filter (\<lambda>q. f q \<noteq> k) xs) = None"
  by (induction xs) auto

section \<open>Deleting a product\<close>

text \<open>
  Claim C4. Let the product \<open>pid\<close> exist, let its shop exist and be owned by the
  current user \<open>u\<close>, and let the database session commit. Then \<open>delete_product\<close>
  redirects to the page of the shop with the success message; in the store after it
  every comment on the product is gone (the comments left are exactly those of other
  products), the product is gone, and the other tables are as before. Any later lookup
  of the product id finds nothing: the product page and a second delete answer 404.
  This holds whether or not the image file could be removed.
\<close>

theorem delete_product_by_owner:
  assumes "get_product st pid = Some p"
      and "get_shop st (product_shop_id p) = Some s"
      and "owner_id s = user_id u"
      and "db_error env = None"
  shows "case delete_product env (Some u) pid st of
           (response, flashes, st') \<Rightarrow>
             response = Redirect (Views_manage_shop (shop_id s))
             \<and> (Flash_product_deleted, Success) \<in> set flashes
             \<and> comments st' = filter (\<lambda>c. comment_product_id c \<noteq> pid) (comments st)
             \<and> list_all (\<lambda>c. comment_product_id c \<noteq> pid) (comments st')
             \<and> products st' = filter (\<lambda>q. product_id q \<noteq> pid) (products st)
             \<and> get_product st' pid = None
             \<and> product_view env (Some u) pid m form st' = (Abort 404, [], st')
             \<and> delete_product env (Some u) pid st' = (Abort 404, [], st')
             \<and> users st' = users st \<and> shops st' = shops st"
proof -
  have pid: "product_id p = pid"
    using assms(1) by (auto simp: get_product_def dest: find_Some_key)
  show ?thesis
    using assms pid
    by (auto simp: delete_product_def is_authenticated_def owner_is_not_def
        product_view_def get_product_def find_filter_neq list_all_iff
        split: option.splits prod.splits)
qed

theorem delete_product_by_owner_witness:
  "get_product demo_store 1 = Some red_shirt
   \<and> get_shop demo_store (product_shop_id red_shirt) = Some alice_shop
   \<and> owner_id alice_shop = user_id alice
   \<and> db_error demo_env = None
   \<and> fst (delete_product demo_env (Some alice) 1 demo_store)
       = Redirect (Views_manage_shop 1)
   \<and> comments (snd (snd (delete_product demo_env (Some alice) 1 demo_store)))
       = [pants_comment]
   \<and> products (snd (snd (delete_product demo_env (Some alice) 1 demo_store)))
       = [blue_pants]
   \<and> get_product (snd (snd (delete_product demo_env (Some alice) 1 demo_store))) 1 = None"
proof -
  have h1: "get_product demo_store 1 = Some red_shirt"
    by (simp add: get_product_def demo_defs)
  have h2: "get_shop demo_store (product_shop_id red_shirt) = Some alice_shop"
    by (simp add: get_shop_def demo_defs)
  have h3: "owner_id alice_shop = user_id alice"
    by (simp add: demo_defs)
  have h4: "db_error demo_env = None"
    by (simp add: demo_defs)
  have cs: "filter (\<lambda>c. comment_product_id c \<noteq> 1) (comments demo_store) = [pants_comment]"
    by (simp add: demo_defs)
  have ps: "filter (\<lambda>q. product_id q \<noteq> 1) (products demo_store) = [blue_pants]"
    by (simp add: demo_defs)
  have sid: "shop_id alice_shop = 1"
    by (simp add: demo_defs)
  show ?thesis
    using h1 h2 h3 h4 cs ps sid
      delete_product_by_owner [OF h1 h2 h3 h4, of POST "\<lparr>comment_form_text = []\<rparr>"]
    by (auto split: prod.splits)
qed

section \<open>Authorization\<close>

text \<open>
  Claim C6. Let the caller be logged in as \<open>u\<close>. On a shop that exists and whose owner
  is not \<open>u\<close>, \<open>manage_shop\<close> and \<open>add_product\<close> (for every method and every
  submitted form) answer 403, and so does \<open>delete_product\<close> on a product of such a
  shop; the store is returned unchanged and nothing is flashed. On an id that does not
  exist the same views answer 404, and the two answers differ.
\<close>

theorem non_owner_forbidden:
  "(get_shop st sid = Some s \<and> owner_id s \<noteq> user_id u \<longrightarrow>
      manage_shop (Some u) sid st = Abort 403
      \<and> add_product env (Some u) sid m form st = (Abort 403, [], st))
   \<and> (get_product st pid = Some p \<and> get_shop st (product_shop_id p) = Some s'
        \<and> owner_id s' \<noteq> user_id u \<longrightarrow>
      delete_product env (Some u) pid st = (Abort 403, [], st))
   \<and> (get_shop st missing_sid = None \<longrightarrow>
      manage_shop (Some u) missing_sid st = Abort 404
      \<and> add_product env (Some u) missing_sid m form st = (Abort 404, [], st))
   \<and> (get_product st missing_pid = None \<longrightarrow>
      delete_product env (Some u) missing_pid st = (Abort 404, [], st))
   \<and> Abort 403 \<noteq> Abort 404"
  by (simp add: manage_shop_def add_product_def delete_product_def is_authenticated_def
      owner_is_not_def)

theorem non_owner_forbidden_witness:
  "get_shop demo_store 1 = Some alice_shop \<and> owner_id alice_shop \<noteq> user_id bob
   \<and> get_product demo_store 1 = Some red_shirt
   \<and> get_shop demo_store (product_shop_id red_shirt) = Some alice_shop
   \<and> get_shop demo_store 9 = None \<and> get_product demo_store 9 = None
   \<and> manage_shop (Some bob) 1 demo_store = Abort 403
   \<and> add_product demo_env (Some bob) 1 POST
        \<lparr>product_form_title = ''Hammer'', product_form_description = ''A heavy steel hammer'',
         product_form_price = Some (Finite 5), product_form_image = None\<rparr> demo_store
       = (Abort 403, [], demo_store)
   \<and> delete_product demo_env (Some bob) 1 demo_store = (Abort 403, [], demo_store)
   \<and> manage_shop (Some bob) 9 demo_store = Abort 404
   \<and> delete_product demo_env (Some bob) 9 demo_store = (Abort 404, [], demo_store)"
proof -
  have h1: "get_shop demo_store 1 = Some alice_shop"
    by (simp add: get_shop_def demo_defs)
  have h2: "owner_id alice_shop \<noteq> user_id bob"
    by (simp add: demo_defs)
  have h3: "get_product demo_store 1 = Some red_shirt"
    by (simp add: get_product_def demo_defs)
  have h4: "get_shop demo_store (product_shop_id red_shirt) = Some alice_shop"
    by (simp add: get_shop_def demo_defs)
  have h5: "get_shop demo_store 9 = None"
    by (simp add: get_shop_def demo_defs)
  have h6: "get_product demo_store 9 = None"
    by (simp add: get_product_def demo_defs)
  show ?thesis
    using h1 h2 h3 h4 h5 h6
      non_owner_forbidden [of demo_store 1 alice_shop bob demo_env POST
        "\<lparr>product_form_title = ''Hammer'',
          product_form_description = ''A heavy steel hammer'',
          product_form_price = Some (Finite 5), product_form_image = None\<rparr>"
        1 red_shirt alice_shop 9 9]
    by blast
qed

section \<open>Registration\<close>

text \<open>
  An email that is stored is found by \<^verbatim>\<open>filter_by(email=...).first()\<close>, and then the
  email chain of the registration form has an error: the one of \<open>validate_email\<close>
  when \<^verbatim>\<open>DataRequired\<close> lets the chain run, the one of \<^verbatim>\<open>DataRequired\<close> itself
  otherwise.
\<close>

lemma user_by_email_stored:
  "u \<in> set (users st) \<Longrightarrow> user_by_email st (email u) \<noteq> None"
  by (auto simp: user_by_email_def find_None_iff)

lemma register_email_chain:
  assumes "u \<in> set (users st)" and "e = email u"
  shows "run_validation_chain
           [DataRequired Email_required e, Email env Email_invalid e,
            Length None (Some 100) Email_too_long e, validate_email st e] \<noteq> []
         \<and> (e \<noteq> '''' \<and> strip_truthy e \<longrightarrow>
              Email_already_registered \<in> set (run_validation_chain
                [DataRequired Email_required e, Email env Email_invalid e,
                 Length None (Some 100) Email_too_long e, validate_email st e]))"
  using user_by_email_stored [OF assms(1)] assms(2)
  by (simp add: DataRequired_def Email_def Length_def validate_email_def)

text \<open>
  Claim C1. Let the submitted email be the email of a stored user. Then no request to
  \<open>register\<close> changes the store: no user is inserted, whoever the caller and
  whatever the method. A registration attempt is the POST of the form by a visitor who
  is not logged in (a logged-in caller is redirected to the index before the form is
  read): it is answered with the registration page, the form carrying a validation
  error on the field \<^verbatim>\<open>email\<close> and nothing being flashed. When the email is not blank,
  that error list holds the message of \<^verbatim>\<open>BaseForm.validate_email\<close>.
\<close>

theorem register_duplicate_email:
  assumes "u \<in> set (users st)" and "register_email form = email u"
  shows "snd (snd (register env current_user m form st)) = st
         \<and> (\<not> is_authenticated current_user \<and> m = POST \<longrightarrow>
              (\<exists>msgs.
                 register env current_user m form st
                   = (Render (Register_html (RegisterForm_errors env st form)), [], st)
                 \<and> (''email'', msgs) \<in> set (RegisterForm_errors env st form)
                 \<and> msgs \<noteq> []
                 \<and> (register_email form \<noteq> '''' \<and> strip_truthy (register_email form) \<longrightarrow>
                      Email_already_registered \<in> set msgs)))"
proof -
  let ?e = "register_email form"
  let ?msgs = "run_validation_chain
           [DataRequired Email_required ?e, Email env Email_invalid ?e,
            Length None (Some 100) Email_too_long ?e, validate_email st ?e]"
  have chain: "?msgs \<noteq> []"
    and taken: "?e \<noteq> '''' \<and> strip_truthy ?e \<longrightarrow> Email_already_registered \<in> set ?msgs"
    using register_email_chain [OF assms(1), of ?e env] assms(2) by auto
  have member: "(''email'', ?msgs) \<in> set (RegisterForm_errors env st form)"
    using chain by (simp add: RegisterForm_errors_def field_errors_def)
  then have invalid: "RegisterForm_errors env st form \<noteq> []"
    by auto
  have unchanged: "snd (snd (register env current_user m form st)) = st"
    using invalid by (simp add: register_def validate_on_submit_def Let_def)
  have rendered: "\<not> is_authenticated current_user \<Longrightarrow> m = POST \<Longrightarrow>
      register env current_user m form st
        = (Render (Register_html (RegisterForm_errors env st form)), [], st)"
    using invalid
    by (simp add: register_def validate_on_submit_def shown_errors_def Let_def)
  show ?thesis
    using unchanged rendered member chain taken by blast
qed

theorem register_duplicate_email_witness:
  "alice \<in> set (users demo_store)
   \<and> register demo_env None POST
       \<lparr>register_email = ''a@x.com'', register_password = ''password2'',
        register_confirm_password = ''password2''\<rparr> demo_store
     = (Render (Register_html [(''email'', [Email_already_registered])]), [], demo_store)"
proof -
  let ?form = "\<lparr>register_email = ''a@x.com'', register_password = ''password2'',
        register_confirm_password = ''password2''\<rparr>"
  have h1: "alice \<in> set (users demo_store)"
    by (simp add: demo_defs)
  have h2: "register_email ?form = email alice"
    by (simp add: demo_defs)
  have errs: "RegisterForm_errors demo_env demo_store ?form
                = [(''email'', [Email_already_registered])]"
    by (simp add: RegisterForm_errors_def field_errors_def DataRequired_def
        Email_def Length_def EqualTo_def validate_email_def user_by_email_def
        strip_truthy_def isspace_def whitespace_def demo_defs)
  have anon: "\<not> is_authenticated None"
    by (simp add: is_authenticated_def)
  show ?thesis
    using h1 errs anon register_duplicate_email [OF h1 h2, of demo_env None POST]
    by auto
qed

section \<open>Login\<close>

text \<open>
  With unique keys, \<^verbatim>\<open>first()\<close> finds the one row that has the key; a key of no row
  is not found.
\<close>

lemma find_unique_key:
  "distinct (map f xs) \<Longrightarrow> x \<in> set xs \<Longrightarrow> find (\<lambda>y. f y = f x) xs = Some x"
  by (induction xs) (auto simp: image_iff)

lemma find_absent_key:
  "k \<notin> f ` set xs \<Longrightarrow> find (\<lambda>y. f y = k) xs = None"
  by (auto simp: find_None_iff)

text \<open>
  Claim C5. A login attempt is the POST of the login form, its fields passing the field
  validators (an email that is not blank and has the syntax of an email, a password
  that is not blank), by a visitor who is not logged in; emails are unique in the
  table of users. Then:
  \<^item> with the email of a stored user and a password that the hash of this user
    verifies, the view calls \<^verbatim>\<open>login_user\<close> for this user and redirects;
  \<^item> with the email of a stored user and a password that the hash does not verify,
    and with an email of no stored user, the view opens no session and answers with
    one and the same response: the login page with the one flashed message
    \<open>Flash_bad_credentials\<close>.

  The last part needs none of these conditions: for every caller, method and form,
  two requests that open no session get equal responses from any two stores, so no
  response to a failed login tells whether the email is stored.
\<close>

theorem login_outcomes:
  "(\<not> is_authenticated current_user \<and> LoginForm_errors env form = []
      \<and> distinct (map email (users st)) \<and> u \<in> set (users st)
      \<and> login_email form = email u
      \<and> check_password_hash env (password_hash u) (login_password form) \<longrightarrow>
        (\<exists>t. login env current_user POST next_page form st
               = (Redirect t, [], Some (u, login_remember form))))
   \<and> (\<not> is_authenticated current_user \<and> LoginForm_errors env form = []
      \<and> distinct (map email (users st)) \<and> u \<in> set (users st)
      \<and> login_email form = email u
      \<and> \<not> check_password_hash env (password_hash u) (login_password form) \<longrightarrow>
        login env current_user POST next_page form st
          = (Render (Login_html []), [(Flash_bad_credentials, Danger)], None))
   \<and> (\<not> is_authenticated current_user \<and> LoginForm_errors env form = []
      \<and> login_email form \<notin> email ` set (users st) \<longrightarrow>
        login env current_user POST next_page form st
          = (Render (Login_html []), [(Flash_bad_credentials, Danger)], None))
   \<and> (snd (snd (login env current_user m next_page form st)) = None
      \<and> snd (snd (login env current_user m next_page form st')) = None \<longrightarrow>
        login env current_user m next_page form st
          = login env current_user m next_page form st')"
proof (intro conjI impI)
  assume h: "\<not> is_authenticated current_user \<and> LoginForm_errors env form = []
      \<and> distinct (map email (users st)) \<and> u \<in> set (users st)
      \<and> login_email form = email u
      \<and> check_password_hash env (password_hash u) (login_password form)"
  then have found: "user_by_email st (login_email form) = Some u"
    by (simp add: user_by_email_def find_unique_key)
  show "\<exists>t. login env current_user POST next_page form st
               = (Redirect t, [], Some (u, login_remember form))"
    using h found
    by (auto simp: login_def validate_on_submit_def Let_def split: option.splits)
next
  assume h: "\<not> is_authenticated current_user \<and> LoginForm_errors env form = []
      \<and> distinct (map email (users st)) \<and> u \<in> set (users st)
      \<and> login_email form = email u
      \<and> \<not> check_password_hash env (password_hash u) (login_password form)"
  then have found: "user_by_email st (login_email form) = Some u"
    by (simp add: user_by_email_def find_unique_key)
  show "login env current_user POST next_page form st
          = (Render (Login_html []), [(Flash_bad_credentials, Danger)], None)"
    using h found
    by (simp add: login_def validate_on_submit_def shown_errors_def Let_def)
next
  assume h: "\<not> is_authenticated current_user \<and> LoginForm_errors env form = []
      \<and> login_email form \<notin> email ` set (users st)"
  then have absent: "user_by_email st (login_email form) = None"
    by (simp add: user_by_email_def find_absent_key)
  show "login env current_user POST next_page form st
          = (Render (Login_html []), [(Flash_bad_credentials, Danger)], None)"
    using h absent
    by (simp add: login_def validate_on_submit_def shown_errors_def Let_def)
next
  assume "snd (snd (login env current_user m next_page form st)) = None
      \<and> snd (snd (login env current_user m next_page form st')) = None"
  then show "login env current_user m next_page form st
          = login env current_user m next_page form st'"
    by (auto simp: login_def Let_def split: if_splits option.splits)
qed

theorem login_outcomes_witness:
  "login demo_env None POST None
      \<lparr>login_email = ''a@x.com'', login_password = ''password1'', login_remember = False\<rparr>
      demo_store
     = (Redirect Views_index, [], Some (alice, False))
   \<and> login demo_env None POST None
      \<lparr>login_email = ''a@x.com'', login_password = ''password9'', login_remember = False\<rparr>
      demo_store
     = (Render (Login_html []), [(Flash_bad_credentials, Danger)], None)
   \<and> login demo_env None POST None
      \<lparr>login_email = ''z@x.com'', login_password = ''password9'', login_remember = False\<rparr>
      demo_store
     = (Render (Login_html []), [(Flash_bad_credentials, Danger)], None)"
proof -
  let ?good = "\<lparr>login_email = ''a@x.com'', login_password = ''password1'',
                 login_remember = False\<rparr>"
  let ?bad = "\<lparr>login_email = ''a@x.com'', login_password = ''password9'',
                login_remember = False\<rparr>"
  let ?unknown = "\<lparr>login_email = ''z@x.com'', login_password = ''password9'',
                    login_remember = False\<rparr>"
  have anon: "\<not> is_authenticated None"
    by (simp add: is_authenticated_def)
  have valid: "LoginForm_errors demo_env ?good = []"
    "LoginForm_errors demo_env ?bad = []" "LoginForm_errors demo_env ?unknown = []"
    by (simp_all add: LoginForm_errors_def field_errors_def DataRequired_def Email_def
        strip_truthy_def isspace_def whitespace_def demo_defs)
  have uniq: "distinct (map email (users demo_store))"
    by (simp add: demo_defs)
  have stored: "alice \<in> set (users demo_store)"
    by (simp add: demo_defs)
  have mail: "login_email ?good = email alice" "login_email ?bad = email alice"
    by (simp_all add: demo_defs)
  have matches: "check_password_hash demo_env (password_hash alice) (login_password ?good)"
    by (simp add: demo_defs)
  have differs: "\<not> check_password_hash demo_env (password_hash alice) (login_password ?bad)"
    by (simp add: demo_defs)
  have absent: "login_email ?unknown \<notin> email ` set (users demo_store)"
    by (simp add: demo_defs)
  have opened: "\<exists>t. login demo_env None POST None ?good demo_store
                 = (Redirect t, [], Some (alice, login_remember ?good))"
    using anon valid(1) uniq stored mail(1) matches
      login_outcomes [of None demo_env ?good demo_store alice None]
    by blast
  have target: "fst (login demo_env None POST None ?good demo_store) = Redirect Views_index"
    using opened by (auto simp: login_def Let_def split: if_splits option.splits)
  have first: "login demo_env None POST None ?good demo_store
                 = (Redirect Views_index, [], Some (alice, False))"
    using opened target by auto
  have second: "login demo_env None POST None ?bad demo_store
                 = (Render (Login_html []), [(Flash_bad_credentials, Danger)], None)"
    using anon valid(2) uniq stored mail(2) differs
      login_outcomes [of None demo_env ?bad demo_store alice None]
    by blast
  have third: "login demo_env None POST None ?unknown demo_store
                 = (Render (Login_html []), [(Flash_bad_credentials, Danger)], None)"
    using anon valid(3) absent
      login_outcomes [of None demo_env ?unknown demo_store alice None]
    by blast
  show ?thesis
    using first second third by simp
qed

section \<open>Shop names\<close>

text \<open>
  With unique shop names, the lookup by name finds the shop that has the name. A name
  chain whose last validator raises has an error, whatever the first two do.
\<close>

lemma shop_by_name_stored:
  "distinct (map shop_name (shops st)) \<Longrightarrow> s \<in> set (shops st)
   \<Longrightarrow> shop_by_name st (shop_name s) = Some s"
  by (simp add: shop_by_name_def find_unique_key)

lemma name_chain_nonempty:
  "v = ValidationError m \<Longrightarrow>
   run_validation_chain [DataRequired a n, Length lo hi b n, v] \<noteq> []"
  by (simp add: DataRequired_def Length_def)

text \<open>
  Claim C7. Shop names are unique in the table of shops, and the submitted name is the
  name of a stored shop \<open>other\<close>. Then:
  \<^item> when the form has no shop attribute (a shop is being created),
    \<^verbatim>\<open>validate_name\<close> raises \<open>Shop_name_exists\<close> and the form does not validate;
  \<^item> when the form's shop is a shop with another id than \<open>other\<close>, the same;
  \<^item> when the form's shop is \<open>other\<close> itself (the submitted name is the current name
    of the shop being edited), \<^verbatim>\<open>validate_name\<close> passes; and the whole form
    validates when the name is not blank, has 3 to 100 characters, and no image is
    uploaded.
\<close>

theorem shop_name_self_exclusion:
  assumes uniq: "distinct (map shop_name (shops st))"
      and other: "other \<in> set (shops st)"
      and name: "shop_form_name form = shop_name other"
  shows "(shop_attr form = None \<longrightarrow>
            validate_name st (shop_attr form) (shop_form_name form)
              = ValidationError Shop_name_exists
            \<and> ShopForm_errors st form \<noteq> [])
       \<and> (\<forall>edited. shop_attr form = Some edited \<and> shop_id edited \<noteq> shop_id other \<longrightarrow>
            validate_name st (shop_attr form) (shop_form_name form)
              = ValidationError Shop_name_exists
            \<and> ShopForm_errors st form \<noteq> [])
       \<and> (shop_attr form = Some other \<longrightarrow>
            validate_name st (shop_attr form) (shop_form_name form) = Passed)
       \<and> (shop_attr form = Some other \<and> strip_truthy (shop_name other)
          \<and> 3 \<le> length (shop_name other) \<and> length (shop_name other) \<le> 100
          \<and> shop_form_image form = None \<longrightarrow>
            ShopForm_errors st form = [])"
proof -
  have found: "shop_by_name st (shop_form_name form) = Some other"
    using uniq other name by (simp add: shop_by_name_stored)
  have create: "shop_attr form = None \<Longrightarrow>
      validate_name st (shop_attr form) (shop_form_name form)
        = ValidationError Shop_name_exists"
    using found by (simp add: validate_name_def)
  have edit_other: "\<And>edited. shop_attr form = Some edited \<Longrightarrow> shop_id edited \<noteq> shop_id other \<Longrightarrow>
      validate_name st (shop_attr form) (shop_form_name form)
        = ValidationError Shop_name_exists"
    using found by (simp add: validate_name_def)
  have edit_self: "shop_attr form = Some other \<Longrightarrow>
      validate_name st (shop_attr form) (shop_form_name form) = Passed"
    using found by (simp add: validate_name_def)
  have refused: "validate_name st (shop_attr form) (shop_form_name form)
        = ValidationError Shop_name_exists \<Longrightarrow> ShopForm_errors st form \<noteq> []"
    using name_chain_nonempty [of "validate_name st (shop_attr form) (shop_form_name form)"]
    by (simp add: ShopForm_errors_def field_errors_def)
  have accepted: "shop_attr form = Some other \<Longrightarrow> strip_truthy (shop_name other)
      \<Longrightarrow> 3 \<le> length (shop_name other) \<Longrightarrow> length (shop_name other) \<le> 100
      \<Longrightarrow> shop_form_image form = None \<Longrightarrow> ShopForm_errors st form = []"
    using edit_self name
    by (auto simp: ShopForm_errors_def field_errors_def DataRequired_def Length_def
        FileAllowed_def strip_truthy_def)
  show ?thesis
    using create edit_other edit_self refused accepted by blast
qed

theorem shop_name_self_exclusion_witness:
  "validate_name demo_store None ''Bob Tools'' = ValidationError Shop_name_exists
   \<and> ShopForm_errors demo_store
        \<lparr>shop_form_name = ''Bob Tools'', shop_form_image = None, shop_attr = None\<rparr> \<noteq> []
   \<and> validate_name demo_store (Some alice_shop) ''Bob Tools''
       = ValidationError Shop_name_exists
   \<and> ShopForm_errors demo_store
        \<lparr>shop_form_name = ''Bob Tools'', shop_form_image = None,
         shop_attr = Some alice_shop\<rparr> \<noteq> []
   \<and> validate_name demo_store (Some bob_shop) ''Bob Tools'' = Passed
   \<and> ShopForm_errors demo_store
        \<lparr>shop_form_name = ''Bob Tools'', shop_form_image = None,
         shop_attr = Some bob_shop\<rparr> = []"
proof -
  have uniq: "distinct (map shop_name (shops demo_store))"
    by (simp add: demo_store_def alice_shop_def bob_shop_def)
  have stored: "bob_shop \<in> set (shops demo_store)"
    by (simp add: demo_store_def)
  have name: "shop_name bob_shop = ''Bob Tools''"
    by (simp add: bob_shop_def)
  have ids: "shop_id alice_shop \<noteq> shop_id bob_shop"
    by (simp add: alice_shop_def bob_shop_def)
  have shape: "strip_truthy (shop_name bob_shop) \<and> 3 \<le> length (shop_name bob_shop)
      \<and> length (shop_name bob_shop) \<le> 100"
    by (simp add: bob_shop_def strip_truthy_def isspace_def whitespace_def)
  have created: "validate_name demo_store None ''Bob Tools'' = ValidationError Shop_name_exists
      \<and> ShopForm_errors demo_store
        \<lparr>shop_form_name = ''Bob Tools'', shop_form_image = None, shop_attr = None\<rparr> \<noteq> []"
    using shop_name_self_exclusion [OF uniq stored,
        of "\<lparr>shop_form_name = ''Bob Tools'', shop_form_image = None, shop_attr = None\<rparr>"]
      name by simp
  have renamed: "validate_name demo_store (Some alice_shop) ''Bob Tools''
       = ValidationError Shop_name_exists
      \<and> ShopForm_errors demo_store
        \<lparr>shop_form_name = ''Bob Tools'', shop_form_image = None,
         shop_attr = Some alice_shop\<rparr> \<noteq> []"
    using shop_name_self_exclusion [OF uniq stored,
        of "\<lparr>shop_form_name = ''Bob Tools'', shop_form_image = None,
             shop_attr = Some alice_shop\<rparr>"]
      name ids by simp
  have kept: "validate_name demo_store (Some bob_shop) ''Bob Tools'' = Passed
      \<and> ShopForm_errors demo_store
        \<lparr>shop_form_name = ''Bob Tools'', shop_form_image = None,
         shop_attr = Some bob_shop\<rparr> = []"
    using shop_name_self_exclusion [OF uniq stored,
        of "\<lparr>shop_form_name = ''Bob Tools'', shop_form_image = None,
             shop_attr = Some bob_shop\<rparr>"]
      name shape by simp
  show ?thesis using created renamed kept by simp
qed

section \<open>Prices\<close>

text \<open>
  The price \<^verbatim>\<open>0.01\<close>. The submitted text \<^verbatim>\<open>0.01\<close> is converted by \<^verbatim>\<open>float\<close> to
  the double \<open>price_min\<close>, the same double as the bound of \<^verbatim>\<open>NumberRange\<close>. The
  validator compares with \<^verbatim>\<open>>=\<close>, so this price has no error, and a product form
  with this price and passing other fields validates: the price of exactly 0.01 is
  accepted, where the specification has it rejected.
\<close>

theorem price_of_one_hundredth_accepted:
  "\<bar>price_min - 1 / 100\<bar> < 1 / 10 ^ 18
   \<and> price_errors (Some (Finite price_min)) = []
   \<and> ProductForm_errors
        \<lparr>product_form_title = ''Red Shirt'',
         product_form_description = ''A fine cotton garment'',
         product_form_price = Some (Finite price_min),
         product_form_image = None\<rparr> = []"
  by (simp add: price_min_def price_errors_def ProductForm_errors_def field_errors_def
      DataRequired_float_def NumberRange_def DataRequired_def Length_def FileAllowed_def
      float_truthy_def float_ge_def isnan_def strip_truthy_def isspace_def whitespace_def)

text \<open>
  Claim C2, with the bound as the code has it. The price field has no error if and only
  if the price is present, is a number (not NaN), and is at least 0.01: positive
  infinity, or a finite \<open>r\<close> with \<open>price_min \<le> r\<close>. And the errors of a product form
  name the price field exactly when the price has an error.
\<close>

theorem price_accepted_iff:
  "(price_errors data = [] \<longleftrightarrow>
      data = Some PosInf \<or> (\<exists>r. data = Some (Finite r) \<and> price_min \<le> r))
   \<and> (''price'' \<notin> fst ` set (ProductForm_errors form) \<longleftrightarrow>
        price_errors (product_form_price form) = [])"
proof (intro conjI)
  have pos: "0 < price_min" by (simp add: price_min_def)
  show "price_errors data = [] \<longleftrightarrow>
      data = Some PosInf \<or> (\<exists>r. data = Some (Finite r) \<and> price_min \<le> r)"
  proof (cases data)
    case None
    then show ?thesis
      by (simp add: price_errors_def DataRequired_float_def)
  next
    case (Some x)
    then show ?thesis
      using pos
      by (cases x)
        (auto simp: price_errors_def DataRequired_float_def NumberRange_def
          float_truthy_def float_ge_def isnan_def)
  qed
  show "''price'' \<notin> fst ` set (ProductForm_errors form) \<longleftrightarrow>
        price_errors (product_form_price form) = []"
    by (auto simp: ProductForm_errors_def field_errors_def image_iff)
qed

theorem price_accepted_iff_witness:
  "price_errors (Some (Finite price_min)) = []
   \<and> price_errors (Some (Finite 10)) = []
   \<and> price_errors (Some PosInf) = []
   \<and> price_errors (Some (Finite (1 / 200))) \<noteq> []
   \<and> price_errors (Some (Finite 0)) \<noteq> []
   \<and> price_errors (Some NaN) \<noteq> []
   \<and> price_errors None \<noteq> []"
proof -
  have low: "\<not> price_min \<le> 1 / 200" "\<not> price_min \<le> 0" "price_min \<le> 10"
    by (simp_all add: price_min_def)
  show ?thesis
    using low
      price_accepted_iff [of "Some (Finite price_min)"]
      price_accepted_iff [of "Some (Finite 10)"]
      price_accepted_iff [of "Some PosInf"]
      price_accepted_iff [of "Some (Finite (1 / 200))"]
      price_accepted_iff [of "Some (Finite 0)"]
      price_accepted_iff [of "Some NaN"]
      price_accepted_iff [of None]
    by simp
qed

section \<open>Editing the profile\<close>

text \<open>
  The errors of the edit form for an email that passes the three field validators: the
  one error of \<^verbatim>\<open>validate_email\<close> when a stored user has the email, none otherwise.
  \<^verbatim>\<open>EditProfileForm\<close> is a subclass of \<^verbatim>\<open>BaseForm\<close> and has a field named
  \<^verbatim>\<open>email\<close>, so \<^verbatim>\<open>validate_email\<close> runs on it as it does on the registration
  form.
\<close>

lemma edit_email_chain:
  assumes "strip_truthy (edit_email form)" and "email_syntax env (edit_email form)"
      and "length (edit_email form) \<le> 100"
  shows "EditProfileForm_errors env st form
         = (if edit_email form \<in> email ` set (users st)
            then [(''email'', [Email_already_registered])] else [])"
proof -
  have filled: "edit_email form \<noteq> []"
    using assms(1) by (auto simp: strip_truthy_def)
  have stored: "user_by_email st (edit_email form) = None
      \<longleftrightarrow> edit_email form \<notin> email ` set (users st)"
    by (force simp: user_by_email_def find_None_iff image_iff)
  show ?thesis
    using assms filled stored
    by (cases "user_by_email st (edit_email form)")
      (simp_all add: EditProfileForm_errors_def field_errors_def validate_email_def
        DataRequired_def Email_def Length_def)
qed

text \<open>
  What \<^verbatim>\<open>edit_account\<close> does with such an email, for a logged-in user \<open>u\<close>: the
  edit succeeds when no stored user has the email and the commit succeeds, the email of
  the row of \<open>u\<close> being replaced; it is refused, the store unchanged, when the email
  is that of a stored row, since the lookup of \<^verbatim>\<open>validate_email\<close> is over all rows.
\<close>

lemma edit_email_free:
  assumes "strip_truthy (edit_email form)" and "email_syntax env (edit_email form)"
      and "length (edit_email form) \<le> 100"
      and "edit_email form \<notin> email ` set (users st)" and "db_error env = None"
  shows "edit_account env (Some u) POST form st
           = (Redirect Views_account, [(Flash_profile_updated, Success)],
              st\<lparr>users :=
                   map (\<lambda>v. if user_id v = user_id u
                            then v\<lparr>email := edit_email form\<rparr> else v)
                     (users st)\<rparr>)"
  using edit_email_chain [OF assms(1-3), of st] assms(4,5)
  by (simp add: edit_account_def validate_on_submit_def)

lemma edit_email_taken:
  assumes "strip_truthy (edit_email form)" and "email_syntax env (edit_email form)"
      and "length (edit_email form) \<le> 100"
      and "edit_email form \<in> email ` set (users st)"
  shows "edit_account env (Some u) POST form st
           = (Render (Edit_account_html [(''email'', [Email_already_registered])]
                (edit_email form)), [], st)"
  using edit_email_chain [OF assms(1-3), of st] assms(4)
  by (simp add: edit_account_def validate_on_submit_def)

text \<open>
  Claim C3. The claim is that the must-not-already-exist check on email does not fail
  against the caller's own record: for every logged-in user, the edit of the profile
  with an email that is valid, has at most 100 characters and is the caller's own
  stored email succeeds. The view does not do this. Alice is stored with the email
  \<^verbatim>\<open>a@x.com\<close>, which has the syntax of an email and 7 characters. Logged in, she
  opens the edit page and the view fills the form with her email; she submits the form
  as it is. \<^verbatim>\<open>validate_email\<close>, which the edit form inherits and which has no
  exclusion of the caller's row, finds her own row: the field gets the error
  \<open>Email_already_registered\<close>, the page is rendered again, there is no success
  message, and the store is as it was.
\<close>

theorem edit_own_email_refused:
  "alice \<in> set (users demo_store)
   \<and> email alice = ''a@x.com''
   \<and> email_syntax demo_env ''a@x.com'' \<and> length ''a@x.com'' \<le> 100
   \<and> edit_account demo_env (Some alice) GET \<lparr>edit_email = ''''\<rparr> demo_store
       = (Render (Edit_account_html [] ''a@x.com''), [], demo_store)
   \<and> edit_account demo_env (Some alice) POST \<lparr>edit_email = ''a@x.com''\<rparr> demo_store
       = (Render (Edit_account_html [(''email'', [Email_already_registered])] ''a@x.com''),
          [], demo_store)"
  by (simp add: edit_account_def EditProfileForm_errors_def field_errors_def
      validate_on_submit_def validate_email_def user_by_email_def DataRequired_def
      Email_def Length_def strip_truthy_def isspace_def whitespace_def demo_defs)

section \<open>Search with a query\<close>

text \<open>
  The view puts the query between two \<^verbatim>\<open>%\<close> and gives the pattern to
  \<^verbatim>\<open>ilike\<close>. A pattern \<open>p%\<close> without a wildcard in \<open>p\<close> matches the texts that begin
  with \<open>p\<close>; a pattern \<open>%r\<close> matches the texts of which \<open>r\<close> matches an end. Folding
  the case neither makes nor removes a wildcard.
\<close>

lemma like_percent: "like ''%'' s"
  by (induction s) simp_all

lemma like_plain_prefix:
  "CHR ''%'' \<notin> set p \<Longrightarrow> CHR ''_'' \<notin> set p \<Longrightarrow> like (p @ ''%'') s = prefix p s"
proof (induction p arbitrary: s)
  case Nil
  then show ?case by (simp add: like_percent)
next
  case (Cons a p)
  then show ?case by (cases s) auto
qed

lemma like_percent_suffix:
  "like (CHR ''%'' # r) s = (\<exists>t. suffix t s \<and> like r t)"
  by (induction s) (auto simp: suffix_Cons)

lemma lower_char_wildcard:
  "lower_char c = CHR ''%'' \<longleftrightarrow> c = CHR ''%''"
  "lower_char c = CHR ''_'' \<longleftrightarrow> c = CHR ''_''"
  "CHR ''%'' = lower_char c \<longleftrightarrow> c = CHR ''%''"
  "CHR ''_'' = lower_char c \<longleftrightarrow> c = CHR ''_''"
  by (auto simp: lower_char_def split: option.splits if_splits)

lemma lower_plain:
  "CHR ''%'' \<in> set (lower q) \<longleftrightarrow> CHR ''%'' \<in> set q"
  "CHR ''_'' \<in> set (lower q) \<longleftrightarrow> CHR ''_'' \<in> set q"
  by (auto simp: lower_def image_iff lower_char_wildcard)

text \<open>
  For a query without \<^verbatim>\<open>%\<close> and \<^verbatim>\<open>_\<close>, the pattern matches a column exactly when
  the column contains the query, letter case aside; so for such a query, when it is
  not empty, the view returns the products of the specification, in the order of the
  table.
\<close>

lemma ilike_contains:
  assumes "CHR ''%'' \<notin> set query" and "CHR ''_'' \<notin> set query"
  shows "ilike column (''%'' @ query @ ''%'') = contains_ci query column"
proof -
  have low: "lower (''%'' @ query @ ''%'') = CHR ''%'' # (lower query @ ''%'')"
    by (simp add: lower_def lower_char_def)
  have plain: "CHR ''%'' \<notin> set (lower query)" "CHR ''_'' \<notin> set (lower query)"
    using assms by (simp_all add: lower_plain)
  show ?thesis
    unfolding ilike_def contains_ci_def low like_percent_suffix
    using like_plain_prefix [OF plain]
    by (simp add: sublist_altdef')
qed

lemma search_without_wildcards:
  assumes "query \<noteq> ''''" and "CHR ''%'' \<notin> set query" and "CHR ''_'' \<notin> set query"
  shows "search (Some query) st = Render (Search_html (spec_search query st) query)"
  using assms(1) ilike_contains [OF assms(2,3)]
  by (simp add: search_def spec_search_def)

text \<open>
  Claim C9. The claim is that for every query that is not empty the view returns exactly
  the products whose title or description contains the query, letter case aside. It
  does not hold for a query with a wildcard of \<^verbatim>\<open>LIKE\<close>, which the view does not
  escape: the query \<^verbatim>\<open>R_d\<close> is not empty, neither the title \<^verbatim>\<open>Red Shirt\<close> nor the
  description \<^verbatim>\<open>A fine cotton garment\<close> contains \<^verbatim>\<open>r_d\<close> in any letter case, so the
  search of the specification is empty; the view returns the product, since \<^verbatim>\<open>_\<close>
  matches the \<^verbatim>\<open>e\<close> of \<^verbatim>\<open>Red\<close>.
\<close>

theorem search_wildcard_divergence:
  "search (Some ''R_d'') demo_store = Render (Search_html [red_shirt] ''R_d'')
   \<and> \<not> contains_ci ''R_d'' (title red_shirt)
   \<and> \<not> contains_ci ''R_d'' (description red_shirt)
   \<and> spec_search ''R_d'' demo_store = []"
  by (simp add: search_def spec_search_def contains_ci_def ilike_def lower_def
      lower_char_def sublist_Cons_right demo_defs)

end
